theory Spec2Isabelle
  imports Complex_Main "HOL-Library.Multiset"
begin

section \<open>Python values and strings\<close>

text \<open>
  A cell of a pandas table, as far as \<^verbatim>\<open>app/matcher.py\<close> observes it. The code looks at a
  value in three ways only: its truth value (\<^verbatim>\<open>not sku\<close>, \<^verbatim>\<open>if existing_reason\<close>), whether pandas
  counts it as missing (\<^verbatim>\<open>pd.isna\<close>), and its text (\<^verbatim>\<open>str(...)\<close>). Strings, integers and
  booleans are given as they are; any other scalar (a non-NaN float, a Timestamp) is given by
  its \<^verbatim>\<open>str()\<close> text and its truth value. A character is a code point below 256.
\<close>

datatype cell =
    PyNone
  | NaN
  | NaT
  | PyStr string
  | PyInt int
  | PyBool bool
  | PyObj string bool

fun digits_of :: "nat \<Rightarrow> string" where
  "digits_of n =
     (if n < 10 then [char_of (48 + n)]
      else digits_of (n div 10) @ [char_of (48 + n mod 10)])"

declare digits_of.simps [simp del]

text \<open>\<^verbatim>\<open>str(x)\<close>.\<close>

fun py_str :: "cell \<Rightarrow> string" where
  "py_str PyNone = ''None''"
| "py_str NaN = ''nan''"
| "py_str NaT = ''NaT''"
| "py_str (PyStr s) = s"
| "py_str (PyInt n) = (if n < 0 then CHR ''-'' # digits_of (nat (- n)) else digits_of (nat n))"
| "py_str (PyBool b) = (if b then ''True'' else ''False'')"
| "py_str (PyObj s b) = s"

text \<open>\<^verbatim>\<open>bool(x)\<close>: \<^verbatim>\<open>None\<close>, the empty string, zero and \<^verbatim>\<open>False\<close> are false; NaN is true.\<close>

fun truthy :: "cell \<Rightarrow> bool" where
  "truthy PyNone = False"
| "truthy NaN = True"
| "truthy NaT = True"
| "truthy (PyStr s) = (s \<noteq> [])"
| "truthy (PyInt n) = (n \<noteq> 0)"
| "truthy (PyBool b) = b"
| "truthy (PyObj s b) = b"

text \<open>\<^verbatim>\<open>pd.isna(x)\<close> on a scalar.\<close>

fun isna :: "cell \<Rightarrow> bool" where
  "isna PyNone = True"
| "isna NaN = True"
| "isna NaT = True"
| "isna _ = False"

text \<open>\<^verbatim>\<open>c.isspace()\<close> for code points below 256, the characters \<^verbatim>\<open>str.strip()\<close> removes.\<close>

definition is_space :: "char \<Rightarrow> bool" where
  "is_space c =
     (let n = (of_char c :: nat)
      in (9 \<le> n \<and> n \<le> 13) \<or> (28 \<le> n \<and> n \<le> 32) \<or> n = 133 \<or> n = 160)"

definition py_strip :: "string \<Rightarrow> string" where
  "py_strip s = rev (dropWhile is_space (rev (dropWhile is_space s)))"

text \<open>\<^verbatim>\<open>str.lower()\<close> for code points below 256.\<close>

definition lower_char :: "char \<Rightarrow> char" where
  "lower_char c =
     (let n = (of_char c :: nat)
      in if (65 \<le> n \<and> n \<le> 90) \<or> (192 \<le> n \<and> n \<le> 222 \<and> n \<noteq> 215)
         then char_of (n + 32) else c)"

definition py_lower :: "string \<Rightarrow> string" where
  "py_lower s = map lower_char s"

text \<open>\<^verbatim>\<open>keyword in text\<close>: the substring test, scanning the text from the left.\<close>

fun py_in :: "string \<Rightarrow> string \<Rightarrow> bool" where
  "py_in k [] = (k = [])"
| "py_in k (c # cs) = (take (length k) (c # cs) = k \<or> py_in k cs)"

text \<open>\<^verbatim>\<open>\d\<close> for code points below 256: the ASCII digits.\<close>

definition is_digit :: "char \<Rightarrow> bool" where
  "is_digit c = (let n = (of_char c :: nat) in 48 \<le> n \<and> n \<le> 57)"

text \<open>
  \<^verbatim>\<open>re.search(r'\d+', s)\<close>: the leftmost match, as long as it can be, or no match.
\<close>

definition re_search_digits :: "string \<Rightarrow> string option" where
  "re_search_digits s =
     (let run = takeWhile is_digit (dropWhile (\<lambda>c. \<not> is_digit c) s)
      in if run = [] then None else Some run)"

text \<open>\<^verbatim>\<open>int(ds)\<close> on a string of decimal digits.\<close>

definition py_int :: "string \<Rightarrow> int" where
  "py_int ds = fold (\<lambda>c acc. acc * 10 + (int (of_char c) - 48)) ds 0"

section \<open>The identifier parser\<close>

definition parse_sku_to_slot :: "cell \<Rightarrow> int option" where
  "parse_sku_to_slot sku =
     (if \<not> truthy sku \<or> isna sku then None
      else
        let sku_str = py_strip (py_str sku)
        in if sku_str = [] then None
           else (case re_search_digits sku_str of
                   Some m \<Rightarrow> Some (py_int m)
                 | None \<Rightarrow> None))"

section \<open>Tables\<close>

text \<open>
  A row maps column names to cells; a table is its column names in order and its rows in
  order, each with its index label. \<^verbatim>\<open>load_csv\<close> and the \<^verbatim>\<open>DataFrame\<close> constructor give the
  labels 0, 1, 2, ...; sorting keeps each row's label.
\<close>

type_synonym row = "string \<rightharpoonup> cell"

record dataframe =
  columns :: "string list"
  rows :: "(nat \<times> row) list"

text \<open>\<^verbatim>\<open>row.get(c, default)\<close>.\<close>

definition row_get :: "row \<Rightarrow> string \<Rightarrow> cell \<Rightarrow> cell" where
  "row_get r c dflt = (case r c of None \<Rightarrow> dflt | Some v \<Rightarrow> v)"

text \<open>\<^verbatim>\<open>df.empty\<close>: one of the two axes has length 0.\<close>

definition df_empty :: "dataframe \<Rightarrow> bool" where
  "df_empty df = (columns df = [] \<or> rows df = [])"

text \<open>\<^verbatim>\<open>df[c] = v\<close> with a scalar: a new column goes last, an existing one is overwritten in place.\<close>

definition setitem :: "string \<Rightarrow> cell \<Rightarrow> dataframe \<Rightarrow> dataframe" where
  "setitem c v df =
     \<lparr>columns = (if c \<in> set (columns df) then columns df else columns df @ [c]),
      rows = map (\<lambda>(i, r). (i, r(c \<mapsto> v))) (rows df)\<rparr>"

text \<open>\<^verbatim>\<open>df[c]\<close>: a column as a series, each value with its label.\<close>

definition getitem :: "string \<Rightarrow> dataframe \<Rightarrow> (nat \<times> cell) list" where
  "getitem c df = map (\<lambda>(i, r). (i, row_get r c NaN)) (rows df)"

text \<open>\<^verbatim>\<open>df[c] = series\<close>: the values are aligned on the index labels.\<close>

definition setitem_series :: "string \<Rightarrow> (nat \<Rightarrow> cell) \<Rightarrow> dataframe \<Rightarrow> dataframe" where
  "setitem_series c ser df =
     \<lparr>columns = (if c \<in> set (columns df) then columns df else columns df @ [c]),
      rows = map (\<lambda>(i, r). (i, r(c \<mapsto> ser i))) (rows df)\<rparr>"

text \<open>\<^verbatim>\<open>df.at[idx, c] = v\<close>, for a column that exists: the write goes to the label.\<close>

definition at_set :: "nat \<Rightarrow> string \<Rightarrow> cell \<Rightarrow> dataframe \<Rightarrow> dataframe" where
  "at_set idx c v df =
     df\<lparr>rows := map (\<lambda>(i, r). if i = idx then (i, r(c \<mapsto> v)) else (i, r)) (rows df)\<rparr>"

text \<open>
  \<^verbatim>\<open>df.at[idx, c]\<close>. The code reads only labels it got from iterating the same table and
  only columns it created, so the \<^verbatim>\<open>KeyError\<close> of a missing label is not reached; the model
  returns \<^verbatim>\<open>None\<close> there.
\<close>

definition at_get :: "nat \<Rightarrow> string \<Rightarrow> dataframe \<Rightarrow> cell" where
  "at_get idx c df =
     (case map_of (rows df) idx of None \<Rightarrow> PyNone | Some r \<Rightarrow> row_get r c PyNone)"

section \<open>The row filter\<close>

fun any_keyword_in :: "string list \<Rightarrow> string \<Rightarrow> bool" where
  "any_keyword_in [] product_name = False"
| "any_keyword_in (keyword # rest) product_name =
     (if py_in (py_lower keyword) product_name then True
      else any_keyword_in rest product_name)"

definition should_exclude_row :: "row \<Rightarrow> string list \<Rightarrow> bool" where
  "should_exclude_row r exclude_kws =
     (if exclude_kws = [] then False
      else any_keyword_in exclude_kws
             (py_lower (py_str (row_get r ''product name'' (PyStr '''')))))"

definition should_include_row :: "row \<Rightarrow> string list \<Rightarrow> bool" where
  "should_include_row r include_kws =
     (if include_kws = [] then True
      else any_keyword_in include_kws
             (py_lower (py_str (row_get r ''product name'' (PyStr '''')))))"

section \<open>The strategy selector\<close>

text \<open>
  \<^verbatim>\<open>valid_skus / total_rows >= 0.8\<close> is a comparison of doubles in the source. The quotient of
  two integers below \<open>2^53\<close> is rounded correctly and rounding is monotone, so it can differ
  from the exact comparison \<open>4 * total_rows \<le> 5 * valid_skus\<close> only for a table of more than
  \<open>10^15\<close> rows; the model compares exactly.
\<close>

definition detect_mode :: "dataframe \<Rightarrow> string" where
  "detect_mode df =
     (if ''sku'' \<notin> set (columns df) then ''sequence''
      else
        let valid_skus = length (filter (\<lambda>(i, v). parse_sku_to_slot v \<noteq> None) (getitem ''sku'' df));
            total_rows = length (rows df)
        in if total_rows = 0 then ''sequence''
           else if 4 * total_rows \<le> 5 * valid_skus then ''sku'' else ''sequence'')"

section \<open>The engine\<close>

text \<open>
  Tables are objects on a heap, and a variable holds a reference. \<^verbatim>\<open>df.copy()\<close> and
  \<^verbatim>\<open>df.sort_values(...)\<close> allocate a new table; every assignment \<^verbatim>\<open>df[...] = ...\<close> and
  \<^verbatim>\<open>df.at[...] = ...\<close> writes to the table the variable \<^verbatim>\<open>df\<close> refers to at that moment.
\<close>

type_synonym ref = nat
type_synonym heap = "dataframe list"

definition heap_upd :: "ref \<Rightarrow> (dataframe \<Rightarrow> dataframe) \<Rightarrow> heap \<Rightarrow> heap" where
  "heap_upd d f h = h[d := f (h ! d)]"

definition alloc :: "dataframe \<Rightarrow> heap \<Rightarrow> heap \<times> ref" where
  "alloc df h = (h @ [df], length h)"

text \<open>
  The two pandas routines of the sequence strategy are parameters of the model.
  \<^verbatim>\<open>pd.to_datetime(series, errors='coerce')\<close> returns a series on the same labels, or raises
  (\<open>None\<close>); \<^verbatim>\<open>df.sort_values(c)\<close> returns a new table, or raises (\<open>None\<close>). Its default sort
  is not stable, so the order of rows with equal keys is pandas' own.
\<close>

record pandas =
  to_datetime :: "(nat \<times> cell) list \<Rightarrow> (nat \<Rightarrow> cell) option"
  sort_values :: "string \<Rightarrow> dataframe \<Rightarrow> dataframe option"

text \<open>Both \<^verbatim>\<open>ValueError\<close>s of \<^verbatim>\<open>match\<close>, told apart by their message.\<close>

datatype error = EmptyDataFrame | InvalidMode string

record summary =
  total_rows :: nat
  matched :: nat
  excluded :: nat
  needs_review :: nat
  duplicate_slots :: nat
  mode_used :: string
  start_slot :: int
  exclude_keywords :: "string list"
  include_keywords :: "string list"

text \<open>The heap and the local variables of \<^verbatim>\<open>match\<close> that change while it runs.\<close>

record locals =
  heap :: heap
  df :: ref
  excluded_count :: nat
  matched_count :: nat
  needs_review_count :: nat
  slot_usage :: "(int \<times> nat list) list"
  current_slot :: int
  duplicate_count :: nat

text \<open>
  \<^verbatim>\<open>slot_usage\<close> is a dict, which keeps its keys in insertion order: a known slot gets the
  label appended to its list, a new slot becomes the last key.
\<close>

definition usage_add :: "int \<Rightarrow> nat \<Rightarrow> (int \<times> nat list) list \<Rightarrow> (int \<times> nat list) list" where
  "usage_add slot_num idx su =
     (if slot_num \<in> fst ` set su
      then map (\<lambda>(k, l). if k = slot_num then (k, l @ [idx]) else (k, l)) su
      else su @ [(slot_num, [idx])])"

text \<open>\<^verbatim>\<open>[k.strip() for k in (kws or [])] if kws else []\<close>.\<close>

definition normalize_keywords :: "string list option \<Rightarrow> string list" where
  "normalize_keywords kws =
     (case kws of None \<Rightarrow> [] | Some ks \<Rightarrow> if ks = [] then [] else map py_strip ks)"

text \<open>The marking of a row as excluded, the same statements in both loops.\<close>

definition mark_excluded :: "nat \<Rightarrow> locals \<Rightarrow> locals" where
  "mark_excluded idx st =
     st\<lparr>heap := heap_upd (df st) (at_set idx ''match_method'' (PyStr ''excluded'')) (heap st),
        excluded_count := excluded_count st + 1\<rparr>"

text \<open>The body of the loop of the identifier strategy, for one \<^verbatim>\<open>(idx, row)\<close> of \<^verbatim>\<open>df.iterrows()\<close>.\<close>

definition sku_body :: "string list \<Rightarrow> string list \<Rightarrow> nat \<times> row \<Rightarrow> locals \<Rightarrow> locals" where
  "sku_body exclude_kws include_kws item st =
     (case item of (idx, r) \<Rightarrow>
        if should_exclude_row r exclude_kws then mark_excluded idx st
        else if \<not> should_include_row r include_kws then mark_excluded idx st
        else
          (case parse_sku_to_slot (row_get r ''sku'' PyNone) of
             None \<Rightarrow>
               st\<lparr>heap :=
                    heap_upd (df st) (at_set idx ''review_reason'' (PyStr ''sku_missing_or_invalid''))
                      (heap_upd (df st) (at_set idx ''needs_review'' (PyBool True))
                        (heap_upd (df st) (at_set idx ''match_method'' (PyStr ''manual_review''))
                          (heap st))),
                  needs_review_count := needs_review_count st + 1\<rparr>
           | Some slot_num \<Rightarrow>
               st\<lparr>heap :=
                    heap_upd (df st) (at_set idx ''match_method'' (PyStr ''sku''))
                      (heap_upd (df st)
                        (at_set idx ''matched_item_label'' (PyStr (''Item #'' @ py_str (PyInt slot_num))))
                        (heap_upd (df st) (at_set idx ''slot'' (PyInt slot_num)) (heap st))),
                  matched_count := matched_count st + 1,
                  slot_usage := usage_add slot_num idx (slot_usage st)\<rparr>))"

text \<open>
  The sorting step of the sequence strategy. When \<^verbatim>\<open>to_datetime\<close> raises, nothing has been
  written; when it returns, the column \<^verbatim>\<open>_sort_key\<close> is written to the table before the sort.
\<close>

definition sort_by_placed_at :: "pandas \<Rightarrow> locals \<Rightarrow> locals" where
  "sort_by_placed_at pd st =
     (if ''placed at'' \<in> set (columns (heap st ! df st)) then
        (case to_datetime pd (getitem ''placed at'' (heap st ! df st)) of
           None \<Rightarrow> st
         | Some ser \<Rightarrow>
             let st1 = st\<lparr>heap := heap_upd (df st) (setitem_series ''_sort_key'' ser) (heap st)\<rparr>
             in (case sort_values pd ''_sort_key'' (heap st1 ! df st1) of
                   None \<Rightarrow> st1
                 | Some sorted_df \<Rightarrow>
                     (case alloc sorted_df (heap st1) of
                        (h', d') \<Rightarrow> st1\<lparr>heap := h', df := d'\<rparr>)))
      else st)"

text \<open>The body of the loop of the sequence strategy.\<close>

definition sequence_body :: "string list \<Rightarrow> string list \<Rightarrow> nat \<times> row \<Rightarrow> locals \<Rightarrow> locals" where
  "sequence_body exclude_kws include_kws item st =
     (case item of (idx, r) \<Rightarrow>
        if should_exclude_row r exclude_kws then mark_excluded idx st
        else if \<not> should_include_row r include_kws then mark_excluded idx st
        else
          st\<lparr>heap :=
               heap_upd (df st) (at_set idx ''match_method'' (PyStr ''sequence''))
                 (heap_upd (df st)
                   (at_set idx ''matched_item_label''
                      (PyStr (''Item #'' @ py_str (PyInt (current_slot st)))))
                   (heap_upd (df st) (at_set idx ''slot'' (PyInt (current_slot st))) (heap st))),
             matched_count := matched_count st + 1,
             slot_usage := usage_add (current_slot st) idx (slot_usage st),
             current_slot := current_slot st + 1\<rparr>)"

text \<open>The duplicate pass: the inner loop body, for one label of an over-assigned slot.\<close>

definition flag_duplicate :: "nat \<Rightarrow> locals \<Rightarrow> locals" where
  "flag_duplicate idx st =
     (let h1 = heap_upd (df st) (at_set idx ''needs_review'' (PyBool True)) (heap st);
          existing_reason = at_get idx ''review_reason'' (h1 ! df st);
          h2 = heap_upd (df st)
                 (at_set idx ''review_reason''
                    (PyStr (if truthy existing_reason
                            then py_str existing_reason @ ''; duplicate_slot''
                            else ''duplicate_slot'')))
                 h1
      in st\<lparr>heap := h2,
            needs_review_count :=
              (if at_get idx ''match_method'' (h2 ! df st) \<noteq> PyStr ''manual_review''
               then needs_review_count st + 1 else needs_review_count st)\<rparr>)"

definition duplicate_body :: "int \<times> nat list \<Rightarrow> locals \<Rightarrow> locals" where
  "duplicate_body item st =
     (case item of (slot_num, indices) \<Rightarrow>
        if length indices > 1
        then fold flag_duplicate indices (st\<lparr>duplicate_count := duplicate_count st + 1\<rparr>)
        else st)"

text \<open>\<^verbatim>\<open>mode = detect_mode(df) if mode == "auto"\<close>.\<close>

definition resolve_mode :: "string \<Rightarrow> dataframe \<Rightarrow> string" where
  "resolve_mode mode table = (if mode = ''auto'' then detect_mode table else mode)"

text \<open>The five assignments that create the output columns.\<close>

definition init_columns :: "dataframe \<Rightarrow> dataframe" where
  "init_columns table =
     setitem ''review_reason'' (PyStr '''')
       (setitem ''needs_review'' (PyBool False)
         (setitem ''match_method'' PyNone
           (setitem ''matched_item_label'' PyNone
             (setitem ''slot'' PyNone table))))"

text \<open>
  \<^verbatim>\<open>match(df, mode, start_slot, exclude_keywords, include_keywords)\<close>, called with a reference
  to the caller's table. It returns the heap after the call and either the error raised or the
  reference to the annotated table with the summary.
\<close>

definition match ::
  "pandas \<Rightarrow> heap \<Rightarrow> ref \<Rightarrow> string \<Rightarrow> int \<Rightarrow> string list option \<Rightarrow> string list option
     \<Rightarrow> heap \<times> (error + ref \<times> summary)" where
  "match pd h table mode start exclude_kws include_kws =
     (if df_empty (h ! table) then (h, Inl EmptyDataFrame)
      else
        let excl = normalize_keywords exclude_kws;
            incl = normalize_keywords include_kws;
            mode' = resolve_mode mode (h ! table)
        in if mode' \<notin> set [''sku'', ''sequence''] then (h, Inl (InvalidMode mode'))
           else
             (case alloc (h ! table) h of (h0, d0) \<Rightarrow>
                let st0 = \<lparr>heap = heap_upd d0 init_columns h0, df = d0, excluded_count = 0,
                           matched_count = 0, needs_review_count = 0, slot_usage = [],
                           current_slot = start, duplicate_count = 0\<rparr>;
                    n = length (rows (heap st0 ! df st0));
                    st1 = (if mode' = ''sku''
                           then fold (sku_body excl incl) (rows (heap st0 ! df st0)) st0
                           else
                             let st = sort_by_placed_at pd st0
                             in fold (sequence_body excl incl) (rows (heap st ! df st)) st);
                    st2 = fold duplicate_body (slot_usage st1) st1
                in (heap st2,
                    Inr (df st2,
                         \<lparr>total_rows = n, matched = matched_count st2,
                          excluded = excluded_count st2, needs_review = needs_review_count st2,
                          duplicate_slots = duplicate_count st2, mode_used = mode',
                          start_slot = start, exclude_keywords = excl,
                          include_keywords = incl\<rparr>))))"




definition upd_label :: "nat \<Rightarrow> (row \<Rightarrow> row) \<Rightarrow> (nat \<times> row) list \<Rightarrow> (nat \<times> row) list" where
  "upd_label idx f rs = map (\<lambda>(i, r). if i = idx then (i, f r) else (i, r)) rs"

definition with_rows :: "((nat \<times> row) list \<Rightarrow> (nat \<times> row) list) \<Rightarrow> dataframe \<Rightarrow> dataframe" where
  "with_rows f t = t\<lparr>rows := f (rows t)\<rparr>"

definition excluded_row :: "row \<Rightarrow> row" where
  "excluded_row = (\<lambda>x. x(''match_method'' \<mapsto> PyStr ''excluded''))"

definition manual_row :: "row \<Rightarrow> row" where
  "manual_row = (\<lambda>x. x(''match_method'' \<mapsto> PyStr ''manual_review'', ''needs_review'' \<mapsto> PyBool True,
                    ''review_reason'' \<mapsto> PyStr ''sku_missing_or_invalid''))"

definition assigned_row :: "string \<Rightarrow> int \<Rightarrow> row \<Rightarrow> row" where
  "assigned_row method n =
     (\<lambda>x. x(''slot'' \<mapsto> PyInt n, ''matched_item_label'' \<mapsto> PyStr (''Item #'' @ py_str (PyInt n)),
       ''match_method'' \<mapsto> PyStr method))"

definition passes :: "string list \<Rightarrow> string list \<Rightarrow> row \<Rightarrow> bool" where
  "passes excl incl r = (\<not> should_exclude_row r excl \<and> should_include_row r incl)"

definition sku_tr :: "string list \<Rightarrow> string list \<Rightarrow> row \<Rightarrow> row \<Rightarrow> row" where
  "sku_tr excl incl r =
     (if passes excl incl r
      then (case parse_sku_to_slot (row_get r ''sku'' PyNone) of
              None \<Rightarrow> manual_row | Some n \<Rightarrow> assigned_row ''sku'' n)
      else excluded_row)"

fun sequence_rows :: "string list \<Rightarrow> string list \<Rightarrow> int \<Rightarrow> (nat \<times> row) list \<Rightarrow> (nat \<times> row) list" where
  "sequence_rows excl incl cur [] = []"
| "sequence_rows excl incl cur ((k, r) # xs) =
     (if passes excl incl r
      then (k, assigned_row ''sequence'' cur r) # sequence_rows excl incl (cur + 1) xs
      else (k, excluded_row r) # sequence_rows excl incl cur xs)"

definition slot_of :: "row \<Rightarrow> int option" where
  "slot_of r = (case r ''slot'' of Some (PyInt n) \<Rightarrow> Some n | _ \<Rightarrow> None)"

definition holders :: "int \<Rightarrow> (nat \<times> row) list \<Rightarrow> nat list" where
  "holders n T = map fst (filter (\<lambda>(k, r). slot_of r = Some n) T)"

definition record_usage :: "nat \<times> row \<Rightarrow> (int \<times> nat list) list \<Rightarrow> (int \<times> nat list) list" where
  "record_usage item su =
     (case item of (k, r) \<Rightarrow> (case slot_of r of None \<Rightarrow> su | Some n \<Rightarrow> usage_add n k su))"


definition dup_row :: "row \<Rightarrow> row" where
  "dup_row =
     (\<lambda>x. x(''needs_review'' \<mapsto> PyBool True,
            ''review_reason'' \<mapsto>
              PyStr (if truthy (row_get x ''review_reason'' PyNone)
                     then py_str (row_get x ''review_reason'' PyNone) @ ''; duplicate_slot''
                     else ''duplicate_slot'')))"

definition long_lists :: "(int \<times> nat list) list \<Rightarrow> (int \<times> nat list) list" where
  "long_lists su = filter (\<lambda>(n, l). 1 < length l) su"

definition sorted_table :: "pandas \<Rightarrow> dataframe \<Rightarrow> dataframe" where
  "sorted_table pd t =
     (if ''placed at'' \<in> set (columns t) then
        (case to_datetime pd (getitem ''placed at'' t) of
           None \<Rightarrow> t
         | Some ser \<Rightarrow>
             (case sort_values pd ''_sort_key'' (setitem_series ''_sort_key'' ser t) of
                None \<Rightarrow> setitem_series ''_sort_key'' ser t
              | Some t' \<Rightarrow> t'))
      else t)"



definition final_rows :: "(nat \<times> row) list \<Rightarrow> (nat \<times> row) list" where
  "final_rows T =
     map (\<lambda>(k, x). if k \<in> set (concat (map snd (long_lists (fold record_usage T []))))
                    then (k, dup_row x) else (k, x)) T"


definition main_rows ::
  "string list \<Rightarrow> string list \<Rightarrow> string \<Rightarrow> int \<Rightarrow> (nat \<times> row) list \<Rightarrow> (nat \<times> row) list" where
  "main_rows excl incl m start X =
     (if m = ''sku'' then map (\<lambda>(k, r). (k, sku_tr excl incl r r)) X
      else sequence_rows excl incl start X)"

definition start_state :: "heap \<Rightarrow> ref \<Rightarrow> int \<Rightarrow> locals" where
  "start_state h table start =
     \<lparr>heap = heap_upd (length h) init_columns (h @ [h ! table]), df = length h,
      excluded_count = 0, matched_count = 0, needs_review_count = 0, slot_usage = [],
      current_slot = start, duplicate_count = 0\<rparr>"

definition main_state :: "pandas \<Rightarrow> string list \<Rightarrow> string list \<Rightarrow> string \<Rightarrow> locals \<Rightarrow> locals" where
  "main_state pd excl incl m st0 =
     (if m = ''sku'' then fold (sku_body excl incl) (rows (heap st0 ! df st0)) st0
      else fold (sequence_body excl incl)
             (rows (heap (sort_by_placed_at pd st0) ! df (sort_by_placed_at pd st0)))
             (sort_by_placed_at pd st0))"

definition end_state :: "pandas \<Rightarrow> string list \<Rightarrow> string list \<Rightarrow> string \<Rightarrow> locals \<Rightarrow> locals" where
  "end_state pd excl incl m st0 =
     fold duplicate_body (slot_usage (main_state pd excl incl m st0)) (main_state pd excl incl m st0)"

definition writes_above :: "nat \<Rightarrow> locals \<Rightarrow> locals \<Rightarrow> bool" where
  "writes_above n st st' =
     (n \<le> df st' \<and> df st' < length (heap st') \<and> take n (heap st') = take n (heap st))"

definition annotation_columns :: "string list" where
  "annotation_columns =
     [''slot'', ''matched_item_label'', ''match_method'', ''needs_review'', ''review_reason'']"

text \<open>
  Example inputs. \<open>pandas_unparsed\<close> is pandas on a table whose timestamp column holds no
  date: every key is \<^verbatim>\<open>NaT\<close> and the sort keeps the order. \<open>givy_orders\<close> is the table of
  scenario B, with the labels 0, 1, 2, 3 that \<^verbatim>\<open>load_csv\<close> gives.
\<close>

definition pandas_unparsed :: pandas where
  "pandas_unparsed = \<lparr>to_datetime = (\<lambda>ser. Some (\<lambda>k. NaT)), sort_values = (\<lambda>c t. Some t)\<rparr>"

definition givy_orders :: dataframe where
  "givy_orders =
     \<lparr>columns = [''product name''],
      rows = [(0, [''product name'' \<mapsto> PyStr ''Item A'']),
              (1, [''product name'' \<mapsto> PyStr ''Givy Item'']),
              (2, [''product name'' \<mapsto> PyStr ''Item B'']),
              (3, [''product name'' \<mapsto> PyStr ''Item C''])]\<rparr>"





definition init_row :: "row \<Rightarrow> row" where
  "init_row =
     (\<lambda>r. r(''slot'' \<mapsto> PyNone, ''matched_item_label'' \<mapsto> PyNone, ''match_method'' \<mapsto> PyNone,
            ''needs_review'' \<mapsto> PyBool False, ''review_reason'' \<mapsto> PyStr []))"

definition sort_key_series :: "pandas \<Rightarrow> string \<Rightarrow> dataframe \<Rightarrow> (nat \<Rightarrow> cell) option" where
  "sort_key_series pd m t =
     (if m \<noteq> ''sku'' \<and> ''placed at'' \<in> set (columns (init_columns t))
      then to_datetime pd (getitem ''placed at'' (init_columns t)) else None)"

definition work_row :: "pandas \<Rightarrow> string \<Rightarrow> dataframe \<Rightarrow> nat \<Rightarrow> row \<Rightarrow> row" where
  "work_row pd m t k r0 =
     (case sort_key_series pd m t of
        None \<Rightarrow> init_row r0
      | Some ser \<Rightarrow> (init_row r0)(''_sort_key'' \<mapsto> ser k))"









lemma heap_upd_length [simp]: "length (heap_upd d f h) = length h"
  by (simp add: heap_upd_def)

lemma heap_upd_nth [simp]: "d < length h \<Longrightarrow> heap_upd d f h ! d = f (h ! d)"
  by (simp add: heap_upd_def)


lemma heap_upd_take: "n \<le> d \<Longrightarrow> take n (heap_upd d f h) = take n h"
  by (simp add: heap_upd_def)




lemma map_fst_upd_label [simp]: "map fst (upd_label k f rs) = map fst rs"
  by (induction rs) (auto simp: upd_label_def)





lemma sku_body_df [simp]: "df (sku_body excl incl item st) = df st"
  by (cases item) (simp add: sku_body_def mark_excluded_def split: option.split)



lemma rows_with_rows [simp]: "rows (with_rows f t) = f (rows t)"
  by (simp add: with_rows_def)

lemma columns_with_rows [simp]: "columns (with_rows f t) = columns t"
  by (simp add: with_rows_def)

lemma sku_loop_df [simp]: "df (fold (sku_body excl incl) xs st) = df st"
  by (induction xs arbitrary: st) simp_all



lemma sequence_body_df [simp]: "df (sequence_body excl incl item st) = df st"
  by (cases item) (simp add: sequence_body_def mark_excluded_def)


lemma sequence_loop_df [simp]: "df (fold (sequence_body excl incl) xs st) = df st"
  by (induction xs arbitrary: st) simp_all










lemma slot_of_excluded_row [simp]: "slot_of (excluded_row r) = slot_of r"
  by (simp add: slot_of_def excluded_row_def)

lemma slot_of_manual_row [simp]: "slot_of (manual_row r) = slot_of r"
  by (simp add: slot_of_def manual_row_def)

lemma slot_of_assigned_row [simp]: "slot_of (assigned_row m n r) = Some n"
  by (simp add: slot_of_def assigned_row_def)









lemma flag_duplicate_fields [simp]:
  "df (flag_duplicate k st) = df st"
  "duplicate_count (flag_duplicate k st) = duplicate_count st"
  "slot_usage (flag_duplicate k st) = slot_usage st"
  by (simp_all add: flag_duplicate_def Let_def)

lemma flag_loop_fields [simp]:
  "df (fold flag_duplicate ks st) = df st"
  "duplicate_count (fold flag_duplicate ks st) = duplicate_count st"
  by (induction ks arbitrary: st) simp_all

lemma map_fst_fold_upd_label [simp]:
  "map fst (fold (\<lambda>k. upd_label k f) ks rs) = map fst rs"
  by (induction ks arbitrary: rs) simp_all


lemma duplicate_loop_df [simp]: "df (fold duplicate_body su st) = df st"
  by (induction su arbitrary: st) (simp_all add: duplicate_body_def split: prod.split)




lemma sort_by_placed_at_fields [simp]:
  "excluded_count (sort_by_placed_at pd st) = excluded_count st"
  "matched_count (sort_by_placed_at pd st) = matched_count st"
  "needs_review_count (sort_by_placed_at pd st) = needs_review_count st"
  "slot_usage (sort_by_placed_at pd st) = slot_usage st"
  "current_slot (sort_by_placed_at pd st) = current_slot st"
  "duplicate_count (sort_by_placed_at pd st) = duplicate_count st"
  by (simp_all add: sort_by_placed_at_def alloc_def Let_def split: option.split)

lemma sort_by_placed_at_table:
  assumes "df st < length (heap st)"
  shows "heap (sort_by_placed_at pd st) ! df (sort_by_placed_at pd st) =
           sorted_table pd (heap st ! df st)"
    and "df (sort_by_placed_at pd st) < length (heap (sort_by_placed_at pd st))"
    and "df st \<le> df (sort_by_placed_at pd st)"
    and "n \<le> df st \<Longrightarrow> take n (heap (sort_by_placed_at pd st)) = take n (heap st)"
  using assms
  by (simp_all add: sort_by_placed_at_def sorted_table_def alloc_def Let_def heap_upd_take
      nth_append split: option.split)

lemma rows_init_columns:
  "rows (init_columns t) =
     map (\<lambda>(k, r). (k, r(''slot'' \<mapsto> PyNone, ''matched_item_label'' \<mapsto> PyNone,
                         ''match_method'' \<mapsto> PyNone, ''needs_review'' \<mapsto> PyBool False,
                         ''review_reason'' \<mapsto> PyStr ''''))) (rows t)"
  by (simp add: init_columns_def setitem_def split_def comp_def)

lemma labels_init_columns [simp]: "map fst (rows (init_columns t)) = map fst (rows t)"
  by (simp add: rows_init_columns split_def comp_def)



lemma length_rows_init_columns [simp]: "length (rows (init_columns t)) = length (rows t)"
  by (simp add: rows_init_columns)

lemma match_failure:
  "df_empty (h ! table) \<or> resolve_mode mode (h ! table) \<notin> {''sku'', ''sequence''} \<Longrightarrow>
   match pd h table mode start ek ik =
     (h, Inl (if df_empty (h ! table) then EmptyDataFrame
              else InvalidMode (resolve_mode mode (h ! table))))"
  by (auto simp: match_def Let_def)

lemma match_success:
  assumes "\<not> df_empty (h ! table)" and "resolve_mode mode (h ! table) = m"
    and "m = ''sku'' \<or> m = ''sequence''"
  shows "match pd h table mode start ek ik =
     (heap (end_state pd (normalize_keywords ek) (normalize_keywords ik) m (start_state h table start)),
      Inr (df (end_state pd (normalize_keywords ek) (normalize_keywords ik) m (start_state h table start)),
           \<lparr>total_rows = length (rows (h ! table)),
            matched = matched_count (end_state pd (normalize_keywords ek) (normalize_keywords ik) m (start_state h table start)),
            excluded = excluded_count (end_state pd (normalize_keywords ek) (normalize_keywords ik) m (start_state h table start)),
            needs_review = needs_review_count (end_state pd (normalize_keywords ek) (normalize_keywords ik) m (start_state h table start)),
            duplicate_slots = duplicate_count (end_state pd (normalize_keywords ek) (normalize_keywords ik) m (start_state h table start)),
            mode_used = m, start_slot = start,
            exclude_keywords = normalize_keywords ek,
            include_keywords = normalize_keywords ik\<rparr>))"
proof -
  have n: "length (rows (heap (start_state h table start) ! df (start_state h table start))) =
           length (rows (h ! table))"
    by (simp add: start_state_def heap_upd_def rows_init_columns)
  show ?thesis
    using assms n
    by (auto simp: match_def Let_def alloc_def end_state_def main_state_def
        start_state_def [symmetric])
qed


lemma start_state_facts:
  "df (start_state h table start) = length h"
  "length (heap (start_state h table start)) = Suc (length h)"
  "heap (start_state h table start) ! length h = init_columns (h ! table)"
  "take (length h) (heap (start_state h table start)) = h"
  "slot_usage (start_state h table start) = []"
  "current_slot (start_state h table start) = start"
  "duplicate_count (start_state h table start) = 0"
  by (simp_all add: start_state_def heap_upd_def)

lemma sku_loop_duplicate_count [simp]:
  "duplicate_count (fold (sku_body excl incl) xs st) = duplicate_count st"
proof (induction xs arbitrary: st)
  case Nil
  show ?case by simp
next
  case (Cons x xs)
  have "duplicate_count (sku_body excl incl x st) = duplicate_count st"
    by (cases x) (simp add: sku_body_def mark_excluded_def split: option.split)
  with Cons.IH show ?case by simp
qed

lemma sequence_loop_duplicate_count [simp]:
  "duplicate_count (fold (sequence_body excl incl) xs st) = duplicate_count st"
proof (induction xs arbitrary: st)
  case Nil
  show ?case by simp
next
  case (Cons x xs)
  have "duplicate_count (sequence_body excl incl x st) = duplicate_count st"
    by (cases x) (simp add: sequence_body_def mark_excluded_def)
  with Cons.IH show ?case by simp
qed




lemma map_fst_sequence_rows [simp]: "map fst (sequence_rows excl incl cur xs) = map fst xs"
  by (induction excl incl cur xs rule: sequence_rows.induct) simp_all

lemma map_fst_main_rows [simp]: "map fst (main_rows excl incl m start X) = map fst X"
  by (simp add: main_rows_def split_def comp_def)





lemma writes_above_trans:
  "writes_above n st st' \<Longrightarrow> writes_above n st' st'' \<Longrightarrow> writes_above n st st''"
  by (simp add: writes_above_def)

lemma writes_above_fold:
  assumes step: "\<And>x st. n \<le> df st \<Longrightarrow> df st < length (heap st) \<Longrightarrow> writes_above n st (f x st)"
  shows "n \<le> df st \<Longrightarrow> df st < length (heap st) \<Longrightarrow> writes_above n st (fold f xs st)"
proof (induction xs arbitrary: st)
  case Nil
  then show ?case by (simp add: writes_above_def)
next
  case (Cons x xs)
  have 1: "writes_above n st (f x st)" using Cons.prems by (rule step)
  then have "writes_above n (f x st) (fold f xs (f x st))"
    by (intro Cons.IH) (simp_all add: writes_above_def)
  with 1 show ?case by (simp add: writes_above_trans)
qed

lemma mark_excluded_above:
  "n \<le> df st \<Longrightarrow> df st < length (heap st) \<Longrightarrow> writes_above n st (mark_excluded k st)"
  by (simp add: writes_above_def mark_excluded_def heap_upd_take)

lemma sku_body_above:
  "n \<le> df st \<Longrightarrow> df st < length (heap st) \<Longrightarrow> writes_above n st (sku_body excl incl x st)"
  using mark_excluded_above [of n st]
  by (cases x) (simp add: sku_body_def writes_above_def heap_upd_take split: option.split)

lemma sequence_body_above:
  "n \<le> df st \<Longrightarrow> df st < length (heap st) \<Longrightarrow>
   writes_above n st (sequence_body excl incl x st)"
  using mark_excluded_above [of n st]
  by (cases x) (simp add: sequence_body_def writes_above_def heap_upd_take)

lemma flag_duplicate_above:
  "n \<le> df st \<Longrightarrow> df st < length (heap st) \<Longrightarrow> writes_above n st (flag_duplicate k st)"
  by (simp add: flag_duplicate_def Let_def writes_above_def heap_upd_take)

lemma duplicate_body_above:
  "n \<le> df st \<Longrightarrow> df st < length (heap st) \<Longrightarrow> writes_above n st (duplicate_body x st)"
proof -
  assume a: "n \<le> df st" "df st < length (heap st)"
  obtain s l where x: "x = (s, l)" by (cases x)
  let ?st = "st\<lparr>duplicate_count := duplicate_count st + 1\<rparr>"
  have "writes_above n ?st (fold flag_duplicate l ?st)"
    using a by (intro writes_above_fold flag_duplicate_above) simp_all
  then show ?thesis
    using a by (simp add: x duplicate_body_def writes_above_def)
qed

lemma sort_by_placed_at_above:
  "n \<le> df st \<Longrightarrow> df st < length (heap st) \<Longrightarrow> writes_above n st (sort_by_placed_at pd st)"
  using sort_by_placed_at_table(2) [where st = st and pd = pd]
    sort_by_placed_at_table(3) [where st = st and pd = pd]
    sort_by_placed_at_table(4) [where st = st and pd = pd and n = n]
  by (simp add: writes_above_def)

lemma end_state_above:
  "writes_above (length h) (start_state h table start)
     (end_state pd excl incl m (start_state h table start))"
proof -
  let ?n = "length h"
  let ?st0 = "start_state h table start"
  let ?st1 = "main_state pd excl incl m ?st0"
  have 0: "?n \<le> df ?st0" "df ?st0 < length (heap ?st0)"
    by (simp_all add: start_state_facts)
  have 1: "writes_above ?n ?st0 ?st1"
  proof (cases "m = ''sku''")
    case True
    then show ?thesis
      using 0 by (simp add: main_state_def writes_above_fold sku_body_above)
  next
    case False
    have s: "writes_above ?n ?st0 (sort_by_placed_at pd ?st0)"
      using 0 by (rule sort_by_placed_at_above)
    then have "writes_above ?n (sort_by_placed_at pd ?st0) ?st1"
      using False
      by (simp add: main_state_def) (intro writes_above_fold sequence_body_above;
          simp add: writes_above_def)
    with s show ?thesis by (rule writes_above_trans)
  qed
  then have "writes_above ?n ?st1 (fold duplicate_body (slot_usage ?st1) ?st1)"
    by (intro writes_above_fold duplicate_body_above) (simp_all add: writes_above_def)
  with 1 show ?thesis
    unfolding end_state_def by (rule writes_above_trans)
qed

lemma match_heap_prefix: "take (length h) (fst (match pd h table mode start ek ik)) = h"
proof (cases "df_empty (h ! table) \<or> resolve_mode mode (h ! table) \<notin> {''sku'', ''sequence''}")
  case True
  then show ?thesis by (simp add: match_failure)
next
  case False
  then have "\<not> df_empty (h ! table)"
    and "resolve_mode mode (h ! table) = ''sku'' \<or> resolve_mode mode (h ! table) = ''sequence''"
    by auto
  then show ?thesis
    using end_state_above [of h table start pd "normalize_keywords ek" "normalize_keywords ik"
        "resolve_mode mode (h ! table)"]
    by (simp add: match_success [OF _ refl] writes_above_def start_state_facts)
qed





lemma slot_of_dup_row [simp]: "slot_of (dup_row x) = slot_of x"
  by (simp add: slot_of_def dup_row_def)

lemma dup_row_other [simp]:
  "c \<noteq> ''needs_review'' \<Longrightarrow> c \<noteq> ''review_reason'' \<Longrightarrow> dup_row x c = x c"
  by (simp add: dup_row_def)

lemma map_fst_final_rows [simp]: "map fst (final_rows T) = map fst T"
  by (simp add: final_rows_def split_def comp_def if_distrib cong: if_cong)

lemma holders_final_rows [simp]: "holders n (final_rows T) = holders n T"
proof -
  have h: "holders n (map (\<lambda>(k, x). if k \<in> D then (k, dup_row x) else (k, x)) T) = holders n T" for D
    by (induction T) (auto simp: holders_def split: if_splits)
  show ?thesis unfolding final_rows_def by (rule h)
qed








lemma passes_cong:
  "y ''product name'' = r ''product name'' \<Longrightarrow> passes excl incl y = passes excl incl r"
  by (simp add: passes_def should_exclude_row_def should_include_row_def row_get_def)

lemma passes_rows [simp]:
  "passes excl incl (excluded_row r) = passes excl incl r"
  "passes excl incl (manual_row r) = passes excl incl r"
  "passes excl incl (assigned_row m n r) = passes excl incl r"
  "passes excl incl (dup_row r) = passes excl incl r"
  by (rule passes_cong; simp add: excluded_row_def manual_row_def assigned_row_def)+

lemma match_fresh_result:
  "case snd (match pd h table mode start ek ik) of
     Inl e \<Rightarrow> fst (match pd h table mode start ek ik) = h
   | Inr (d, s) \<Rightarrow> length h \<le> d \<and> d < length (fst (match pd h table mode start ek ik))"
proof (cases "df_empty (h ! table) \<or> resolve_mode mode (h ! table) \<notin> {''sku'', ''sequence''}")
  case True
  then show ?thesis by (simp add: match_failure)
next
  case False
  then have "\<not> df_empty (h ! table)"
    and "resolve_mode mode (h ! table) = ''sku'' \<or> resolve_mode mode (h ! table) = ''sequence''"
    by auto
  then show ?thesis
    using end_state_above [of h table start pd "normalize_keywords ek" "normalize_keywords ik"
        "resolve_mode mode (h ! table)"]
    by (simp add: match_success [OF _ refl] writes_above_def)
qed

text \<open>
  Claim C10. \<^verbatim>\<open>match\<close> never writes to the caller's table. Whatever the arguments, every
  table that was on the heap before the call, the input among them, is the same after it,
  whether the call raised or returned. When it raised, the heap is the one before the call;
  when it returned, the annotated table is an object allocated during the call.
\<close>

theorem match_leaves_input_unchanged:
  "take (length h) (fst (match pd h table mode start ek ik)) = h \<and>
   (case snd (match pd h table mode start ek ik) of
      Inl e \<Rightarrow> fst (match pd h table mode start ek ik) = h
    | Inr (d, s) \<Rightarrow> length h \<le> d \<and> d < length (fst (match pd h table mode start ek ik)))"
  using match_heap_prefix match_fresh_result by blast

theorem match_leaves_input_unchanged_witness:
  "take (length [givy_orders])
     (fst (match pandas_unparsed [givy_orders] 0 ''sequence'' 1 (Some [''givy'']) None)) =
     [givy_orders] \<and>
   fst (match pandas_unparsed [givy_orders] 0 ''sequence'' 1 (Some [''givy'']) None) ! 0 =
     givy_orders"
proof -
  have "take (length [givy_orders])
     (fst (match pandas_unparsed [givy_orders] 0 ''sequence'' 1 (Some [''givy'']) None)) =
     [givy_orders]"
    using match_leaves_input_unchanged
      [of "[givy_orders]" pandas_unparsed 0 "''sequence''" 1 "Some [''givy'']" None]
    by simp
  moreover from this
  have "fst (match pandas_unparsed [givy_orders] 0 ''sequence'' 1 (Some [''givy'']) None) ! 0 =
     givy_orders"
    by (metis length_Cons list.size(3) nth_Cons_0 nth_take zero_less_Suc)
  ultimately show ?thesis by simp
qed

lemma space_not_digit: "is_space c \<Longrightarrow> \<not> is_digit c"
  by (auto simp: is_space_def is_digit_def Let_def)

lemma takeWhile_digits_append:
  "\<forall>c\<in>set w. \<not> is_digit c \<Longrightarrow> takeWhile is_digit (t @ w) = takeWhile is_digit t"
  by (induction t) (auto simp: takeWhile_eq_Nil_iff)

lemma digit_run_append:
  "\<forall>c\<in>set w. \<not> is_digit c \<Longrightarrow>
   takeWhile is_digit (dropWhile (\<lambda>c. \<not> is_digit c) (t @ w)) =
   takeWhile is_digit (dropWhile (\<lambda>c. \<not> is_digit c) t)"
proof (induction t)
  case Nil
  then have "dropWhile (\<lambda>c. \<not> is_digit c) w = []"
    by (simp add: dropWhile_eq_Nil_conv)
  then show ?case by (simp del: dropWhile_eq_Nil_conv)
next
  case (Cons c t)
  then show ?case by (simp add: takeWhile_digits_append)
qed

lemma digit_run_skip_spaces:
  "dropWhile (\<lambda>c. \<not> is_digit c) (dropWhile is_space s) = dropWhile (\<lambda>c. \<not> is_digit c) s"
  by (induction s) (auto simp: space_not_digit)

lemma digit_run_strip_right:
  "takeWhile is_digit (dropWhile (\<lambda>c. \<not> is_digit c) (rev (dropWhile is_space (rev u)))) =
   takeWhile is_digit (dropWhile (\<lambda>c. \<not> is_digit c) u)"
proof -
  let ?t = "rev (dropWhile is_space (rev u))"
  let ?w = "rev (takeWhile is_space (rev u))"
  have u: "?t @ ?w = u"
    by (metis rev_append rev_rev_ident takeWhile_dropWhile_id)
  have w: "\<forall>c\<in>set ?w. \<not> is_digit c"
    using space_not_digit by (auto dest: set_takeWhileD)
  from digit_run_append [OF w, of ?t] show ?thesis
    by (simp only: u)
qed

lemma re_search_digits_strip: "re_search_digits (py_strip s) = re_search_digits s"
  by (simp add: re_search_digits_def py_strip_def digit_run_strip_right digit_run_skip_spaces)

lemma re_search_digits_None: "re_search_digits s = None \<longleftrightarrow> (\<forall>c\<in>set s. \<not> is_digit c)"
proof -
  let ?d = "dropWhile (\<lambda>c. \<not> is_digit c) s"
  have "takeWhile is_digit ?d = [] \<longleftrightarrow> ?d = []"
    using hd_dropWhile [of "\<lambda>c. \<not> is_digit c" s]
    by (cases ?d) (auto simp: takeWhile_eq_Nil_iff)
  then show ?thesis
    by (simp add: re_search_digits_def Let_def dropWhile_eq_Nil_conv)
qed

lemma parse_sku_to_slot_text:
  "parse_sku_to_slot v =
     (if \<not> truthy v \<or> isna v then None else map_option py_int (re_search_digits (py_str v)))"
proof -
  have "py_strip s = [] \<Longrightarrow> re_search_digits s = None" for s
    using re_search_digits_strip [of s] by (simp add: re_search_digits_def)
  then show ?thesis
    by (auto simp: parse_sku_to_slot_def Let_def re_search_digits_strip split: option.split)
qed

text \<open>
  Away from the values that Python counts as false, the parser does what claim C3 says: it
  returns the number written by the leftmost longest run of digits in \<^verbatim>\<open>str(value)\<close>, and
  nothing exactly when that text has no digit. A missing value gives nothing.
\<close>

lemma parse_sku_to_slot_truthy:
  "truthy v \<Longrightarrow> \<not> isna v \<Longrightarrow>
   parse_sku_to_slot v = map_option py_int (re_search_digits (py_str v)) \<and>
   (parse_sku_to_slot v = None \<longleftrightarrow> (\<forall>c\<in>set (py_str v). \<not> is_digit c))"
  by (simp add: parse_sku_to_slot_text re_search_digits_None)

lemma parse_sku_to_slot_missing:
  "parse_sku_to_slot PyNone = None"
  "parse_sku_to_slot NaN = None"
  "parse_sku_to_slot (PyStr []) = None"
  by (simp_all add: parse_sku_to_slot_def)

text \<open>
  Claim C3, at the identifier 0 as an integer (a cell of a numeric \<^verbatim>\<open>sku\<close> column):
  \<^verbatim>\<open>not sku\<close> is true of it, so the parser returns nothing, although its text \<^verbatim>\<open>"0"\<close> is a
  run of digits with the value 0. The same identifier as the string \<^verbatim>\<open>"0"\<close> parses to 0.
\<close>

theorem parse_sku_to_slot_integer_zero:
  "parse_sku_to_slot (PyInt 0) = None \<and>
   py_str (PyInt 0) = ''0'' \<and>
   map_option py_int (re_search_digits (py_strip (py_str (PyInt 0)))) = Some 0 \<and>
   parse_sku_to_slot (PyStr ''0'') = Some 0"
  by code_simp

theorem parse_sku_to_slot_integer_zero_witness:
  "parse_sku_to_slot (PyInt 0) \<noteq> parse_sku_to_slot (PyStr (py_str (PyInt 0)))"
  using parse_sku_to_slot_integer_zero by simp
















lemma work_row_other:
  "c \<notin> set annotation_columns \<Longrightarrow> c \<noteq> ''_sort_key'' \<Longrightarrow> work_row pd m t k r0 c = r0 c"
  by (simp add: work_row_def init_row_def annotation_columns_def split: option.split)

lemma passes_work_row [simp]: "passes excl incl (work_row pd m t k r0) = passes excl incl r0"
  by (rule passes_cong) (simp add: work_row_other annotation_columns_def)

lemma sku_work_row [simp]: "row_get (work_row pd m t k r0) ''sku'' d = row_get r0 ''sku'' d"
  by (simp add: row_get_def work_row_other annotation_columns_def)








lemma row_get_simps [simp]:
  "row_get (r(c \<mapsto> v)) c d = v"
  "c' \<noteq> c \<Longrightarrow> row_get (r(c \<mapsto> v)) c' d = row_get r c' d"
  by (simp_all add: row_get_def)


























lemma assigned_row_slot [simp]: "assigned_row m n r ''slot'' = Some (PyInt n)"
  by (simp add: assigned_row_def)




























end
